theory Spec2Isabelle
  imports Main "HOL-Library.Word" "HOL-Library.Sublist"
begin

section \<open>JavaScript strings\<close>

text \<open>
  A JavaScript string is a sequence of UTF-16 code units. String literals of the source
  are ASCII; \<open>js\<close> embeds them.
\<close>

type_synonym js_string = "16 word list"

definition js :: "string \<Rightarrow> js_string" where
  "js s = map of_char s"

text \<open>
  \<open>String.prototype.trim\<close> strips the WhiteSpace and LineTerminator code points of
  ECMAScript from both ends: TAB, LF, VT, FF, CR, SP, NBSP, the Unicode space separators
  (U+1680, U+2000 to U+200A, U+202F, U+205F, U+3000), LS, PS and the byte order mark.
  All of them are single code units.
\<close>

definition isWhiteSpace :: "16 word \<Rightarrow> bool" where
  "isWhiteSpace c \<longleftrightarrow>
     c \<in> set [0x0009, 0x000A, 0x000B, 0x000C, 0x000D, 0x0020, 0x00A0, 0x1680,
              0x2000, 0x2001, 0x2002, 0x2003, 0x2004, 0x2005, 0x2006, 0x2007,
              0x2008, 0x2009, 0x200A, 0x2028, 0x2029, 0x202F, 0x205F, 0x3000, 0xFEFF]"

definition trim :: "js_string \<Rightarrow> js_string" where
  "trim s = rev (dropWhile isWhiteSpace (rev (dropWhile isWhiteSpace s)))"

text \<open>\<open>a || b\<close> on strings: the empty string is falsy.\<close>

definition str_or :: "js_string \<Rightarrow> js_string \<Rightarrow> js_string" where
  "str_or a b = (if a = [] then b else a)"

text \<open>\<open>a || b\<close> where \<open>a\<close> may be absent (undefined or null).\<close>

definition opt_or :: "js_string option \<Rightarrow> js_string \<Rightarrow> js_string" where
  "opt_or a b = (case a of None \<Rightarrow> b | Some s \<Rightarrow> str_or s b)"

text \<open>Truthiness of a value that is a string or absent.\<close>

definition truthy :: "js_string option \<Rightarrow> bool" where
  "truthy a \<longleftrightarrow> (case a of None \<Rightarrow> False | Some s \<Rightarrow> s \<noteq> [])"

text \<open>\<open>s.includes(sub)\<close>: \<open>sub\<close> occurs in \<open>s\<close> as a contiguous run of code units.\<close>

fun starts_with :: "js_string \<Rightarrow> js_string \<Rightarrow> bool" where
  "starts_with s [] = True"
| "starts_with [] (c # sub) = False"
| "starts_with (d # s) (c # sub) = (d = c \<and> starts_with s sub)"

fun includes_str :: "js_string \<Rightarrow> js_string \<Rightarrow> bool" where
  "includes_str [] sub = (sub = [])"
| "includes_str (c # s) sub = (starts_with (c # s) sub \<or> includes_str s sub)"


section \<open>CampaignForm.jsx\<close>

text \<open>The object passed to \<open>onGenerate\<close>; \<open>null\<close> is \<open>None\<close>.\<close>

record campaign_request =
  cr_products :: "js_string list"
  cr_target_market :: js_string
  cr_target_audience :: js_string
  cr_brand_name :: "js_string option"
  cr_campaign_message :: "js_string option"

text \<open>The \<open>errors\<close> object: a key is present when its field is \<open>Some\<close>.\<close>

record form_errors =
  err_products :: "js_string option"
  err_targetMarket :: "js_string option"
  err_targetAudience :: "js_string option"

definition no_errors :: form_errors where
  "no_errors = \<lparr>err_products = None, err_targetMarket = None, err_targetAudience = None\<rparr>"

text \<open>The component's state, one field for each \<open>useState\<close>.\<close>

record campaign_form =
  products :: "js_string list"
  targetMarket :: js_string
  targetAudience :: js_string
  brandName :: js_string
  campaignMessage :: js_string
  errors :: form_errors

text \<open>
  The initial state at mount. An array is truthy even when empty, so
  \<open>initialData?.products || ['', '']\<close> takes the products of any \<open>initialData\<close>.
\<close>

definition CampaignForm :: "campaign_request option \<Rightarrow> campaign_form" where
  "CampaignForm initialData =
     \<lparr>products = (case initialData of None \<Rightarrow> [[], []] | Some d \<Rightarrow> cr_products d),
      targetMarket = (case initialData of None \<Rightarrow> js ''US''
                      | Some d \<Rightarrow> str_or (cr_target_market d) (js ''US'')),
      targetAudience = (case initialData of None \<Rightarrow> []
                        | Some d \<Rightarrow> str_or (cr_target_audience d) []),
      brandName = (case initialData of None \<Rightarrow> []
                   | Some d \<Rightarrow> opt_or (cr_brand_name d) []),
      campaignMessage = (case initialData of None \<Rightarrow> []
                         | Some d \<Rightarrow> opt_or (cr_campaign_message d) []),
      errors = no_errors\<rparr>"

definition addProduct :: "campaign_form \<Rightarrow> campaign_form" where
  "addProduct f = f\<lparr>products := products f @ [[]]\<rparr>"

text \<open>\<open>products.filter((_, i) => i !== index)\<close>\<close>

definition filter_index :: "nat \<Rightarrow> 'a list \<Rightarrow> 'a list" where
  "filter_index index xs = map snd (filter (\<lambda>(i, x). i \<noteq> index) (enumerate 0 xs))"

definition removeProduct :: "nat \<Rightarrow> campaign_form \<Rightarrow> campaign_form" where
  "removeProduct index f =
     (if length (products f) > 2 then f\<lparr>products := filter_index index (products f)\<rparr>
      else f)"

text \<open>
  \<open>updateProduct\<close> is the \<open>onChange\<close> handler of the input rendered for position
  \<open>index\<close> of \<open>products\<close>, so \<open>index\<close> is in range whenever it runs. An assignment
  beyond the end would leave holes in the array, which a list of strings does not
  represent: that case is \<open>None\<close>.
\<close>

definition updateProduct :: "nat \<Rightarrow> js_string \<Rightarrow> campaign_form \<Rightarrow> campaign_form option" where
  "updateProduct index v f =
     (if index < length (products f) then Some (f\<lparr>products := (products f)[index := v]\<rparr>)
      else None)"

text \<open>The remove button of a product row: \<open>products.length > 2 && <button ...>\<close>.\<close>

definition remove_rendered :: "campaign_form \<Rightarrow> nat \<Rightarrow> bool" where
  "remove_rendered f index \<longleftrightarrow> index < length (products f) \<and> length (products f) > 2"

text \<open>\<open>validate\<close> returns the new \<open>errors\<close> object and whether it has no key.\<close>

definition validProducts :: "campaign_form \<Rightarrow> js_string list" where
  "validProducts f = filter (\<lambda>p. trim p \<noteq> []) (products f)"

definition validate :: "campaign_form \<Rightarrow> form_errors \<times> bool" where
  "validate f =
     (let newErrors =
        \<lparr>err_products =
           (if length (validProducts f) < 2 then Some (js ''At least 2 products are required'')
            else None),
         err_targetMarket =
           (if trim (targetMarket f) = [] then Some (js ''Target market is required'')
            else None),
         err_targetAudience =
           (if trim (targetAudience f) = [] then Some (js ''Target audience is required'')
            else None)\<rparr>
      in (newErrors,
          err_products newErrors = None \<and> err_targetMarket newErrors = None
            \<and> err_targetAudience newErrors = None))"

text \<open>
  \<open>handleSubmit\<close> returns the form after \<open>setErrors\<close> and the argument of the call of
  \<open>onGenerate\<close>, if it is called.
\<close>

definition handleSubmit :: "campaign_form \<Rightarrow> campaign_form \<times> campaign_request option" where
  "handleSubmit f =
     (let (newErrors, ok) = validate f; f' = f\<lparr>errors := newErrors\<rparr>
      in if \<not> ok then (f', None)
         else (f', Some \<lparr>cr_products = validProducts f,
                         cr_target_market = targetMarket f,
                         cr_target_audience = targetAudience f,
                         cr_brand_name =
                           (if trim (brandName f) = [] then None else Some (trim (brandName f))),
                         cr_campaign_message =
                           (if trim (campaignMessage f) = [] then None
                            else Some (trim (campaignMessage f)))\<rparr>))"

text \<open>The user's edits of the products list, run in sequence.\<close>

datatype product_op = AddProduct | RemoveProduct nat | UpdateProduct nat js_string

fun product_step :: "product_op \<Rightarrow> campaign_form \<Rightarrow> campaign_form option" where
  "product_step AddProduct f = Some (addProduct f)"
| "product_step (RemoveProduct i) f = Some (removeProduct i f)"
| "product_step (UpdateProduct i v) f = updateProduct i v f"

fun product_steps :: "product_op list \<Rightarrow> campaign_form \<Rightarrow> campaign_form option" where
  "product_steps [] f = Some f"
| "product_steps (x # xs) f =
     (case product_step x f of None \<Rightarrow> None | Some f' \<Rightarrow> product_steps xs f')"



section \<open>ImageGallery.jsx\<close>

text \<open>An element of \<open>images\<close>; \<open>url\<close>, \<open>path\<close> and \<open>size\<close> may be absent.\<close>

record image_artifact =
  aspect_ratio :: js_string
  url :: "js_string option"
  path :: "js_string option"
  size_px :: "(nat \<times> nat) option"

text \<open>The body of a successful reply of \<open>/api/check-compliance\<close>, as the gallery reads it.\<close>

record compliance_verdict =
  compliance_status :: "js_string option"
  brand_name_found :: bool
  logo_visible :: bool
  logo_description :: "js_string option"
  detected_text :: "js_string list"
  compliance_notes :: "js_string option"

text \<open>The props of the component.\<close>

record gallery_props =
  p_images :: "image_artifact list"
  p_apiBaseUrl :: js_string
  p_brandName :: "js_string option"
  p_campaignMessage :: "js_string option"

text \<open>A call of \<open>fetch\<close> by the gallery: the URL and the JSON body.\<close>

record compliance_request =
  rq_url :: js_string
  rq_image_paths :: "js_string list"
  rq_brand_name :: js_string
  rq_campaign_message :: "js_string option"

text \<open>
  The component's state. The three compliance objects are maps from the image index;
  a key holding \<open>null\<close> is \<open>Some None\<close>. \<open>compliance_fetches\<close> is the log of the calls
  of \<open>fetch\<close>, and \<open>compliance_in_flight\<close> holds, for each call of
  \<open>handleCheckCompliance\<close> suspended at its \<open>await\<close>, the \<open>imageIndex\<close> it was called
  with.
\<close>

record gallery_state =
  selectedAspectRatio :: "js_string option"
  complianceLoading :: "nat \<rightharpoonup> bool"
  complianceResults :: "nat \<rightharpoonup> compliance_verdict option"
  complianceErrors :: "nat \<rightharpoonup> js_string option"
  compliance_fetches :: "compliance_request list"
  compliance_in_flight :: "nat list"

definition ImageGallery :: gallery_state where
  "ImageGallery =
     \<lparr>selectedAspectRatio = None, complianceLoading = Map.empty,
      complianceResults = Map.empty, complianceErrors = Map.empty,
      compliance_fetches = [], compliance_in_flight = []\<rparr>"

definition setSelectedAspectRatio :: "js_string option \<Rightarrow> gallery_state \<Rightarrow> gallery_state" where
  "setSelectedAspectRatio r g = g\<lparr>selectedAspectRatio := r\<rparr>"

definition getImageUrl :: "js_string \<Rightarrow> image_artifact \<Rightarrow> js_string option" where
  "getImageUrl apiBaseUrl img =
     (if truthy (url img) then Some (apiBaseUrl @ opt_or (url img) [])
      else if truthy (path img) then Some (apiBaseUrl @ js ''/outputs/'' @ opt_or (path img) [])
      else None)"

definition filteredImages :: "gallery_props \<Rightarrow> gallery_state \<Rightarrow> image_artifact list" where
  "filteredImages p g =
     (if truthy (selectedAspectRatio g)
      then filter (\<lambda>img. Some (aspect_ratio img) = selectedAspectRatio g) (p_images p)
      else p_images p)"

text \<open>
  \<open>handleCheckCompliance\<close> up to its \<open>await fetch(...)\<close>: the guard, the three state
  updates, and the request.
\<close>

definition handleCheckCompliance ::
  "gallery_props \<Rightarrow> js_string option \<Rightarrow> nat \<Rightarrow> gallery_state \<Rightarrow> gallery_state" where
  "handleCheckCompliance p imagePath imageIndex g =
     (if \<not> truthy (p_brandName p) \<or> \<not> truthy imagePath then
        g\<lparr>complianceErrors :=
            (complianceErrors g)(imageIndex \<mapsto> Some (js ''Missing brand name or image''))\<rparr>
      else
        g\<lparr>complianceLoading := (complianceLoading g)(imageIndex \<mapsto> True),
          complianceErrors := (complianceErrors g)(imageIndex \<mapsto> None),
          complianceResults := (complianceResults g)(imageIndex \<mapsto> None),
          compliance_fetches := compliance_fetches g @
            [\<lparr>rq_url = p_apiBaseUrl p @ js ''/api/check-compliance'',
              rq_image_paths = [opt_or imagePath []],
              rq_brand_name = opt_or (p_brandName p) [],
              rq_campaign_message = p_campaignMessage p\<rparr>],
          compliance_in_flight := compliance_in_flight g @ [imageIndex]\<rparr>)"

text \<open>
  How the awaited request ends: \<open>fetch\<close> or \<open>response.json()\<close> throws an error with a
  message; the response is not ok and its body has the optional \<open>detail\<close>; or the
  response is ok with a verdict.
\<close>

datatype compliance_reply =
    ComplianceThrows js_string
  | ComplianceNotOk "js_string option"
  | ComplianceOk compliance_verdict

definition remove_nth :: "nat \<Rightarrow> 'a list \<Rightarrow> 'a list" where
  "remove_nth k xs = take k xs @ drop (Suc k) xs"

text \<open>
  The rest of \<open>handleCheckCompliance\<close>, run when request \<open>k\<close> of those in flight ends:
  the \<open>try\<close> body or the \<open>catch\<close>, then the \<open>finally\<close>.
\<close>

definition handleCheckCompliance_resume ::
  "nat \<Rightarrow> compliance_reply \<Rightarrow> gallery_state \<Rightarrow> gallery_state option" where
  "handleCheckCompliance_resume k r g =
     (if k < length (compliance_in_flight g) then
        let imageIndex = compliance_in_flight g ! k;
            g1 = g\<lparr>compliance_in_flight := remove_nth k (compliance_in_flight g)\<rparr>;
            g2 = (case r of
                    ComplianceOk result \<Rightarrow>
                      g1\<lparr>complianceResults := (complianceResults g1)(imageIndex \<mapsto> Some result)\<rparr>
                  | ComplianceNotOk detail \<Rightarrow>
                      g1\<lparr>complianceErrors := (complianceErrors g1)
                           (imageIndex \<mapsto> Some (opt_or detail (js ''Failed to check compliance'')))\<rparr>
                  | ComplianceThrows m \<Rightarrow>
                      g1\<lparr>complianceErrors := (complianceErrors g1)(imageIndex \<mapsto> Some m)\<rparr>)
        in Some (g2\<lparr>complianceLoading := (complianceLoading g2)(imageIndex \<mapsto> False)\<rparr>)
      else None)"

text \<open>
  One rendered \<open>gallery-item\<close>: \<open>filteredImages.map(...)\<close> gives none for
  an image without URL. \<open>item_check\<close> is the pair of arguments the compliance button
  passes to \<open>handleCheckCompliance\<close>; the button is rendered when \<open>brandName\<close> is truthy.
\<close>

record gallery_item =
  item_index :: nat
  item_image :: image_artifact
  item_url :: js_string
  item_check :: "(js_string option \<times> nat) option"
  item_loading :: "bool option"
  item_error :: "js_string option option"
  item_result :: "compliance_verdict option option"

definition gallery_item_of ::
  "gallery_props \<Rightarrow> gallery_state \<Rightarrow> nat \<times> image_artifact \<Rightarrow> gallery_item option" where
  "gallery_item_of p g = (\<lambda>(index, img).
     case getImageUrl (p_apiBaseUrl p) img of
       None \<Rightarrow> None
     | Some imageUrl \<Rightarrow>
         Some \<lparr>item_index = index, item_image = img, item_url = imageUrl,
               item_check = (if truthy (p_brandName p) then Some (path img, index) else None),
               item_loading = complianceLoading g index,
               item_error = complianceErrors g index,
               item_result = complianceResults g index\<rparr>)"

definition gallery_items :: "gallery_props \<Rightarrow> gallery_state \<Rightarrow> gallery_item list" where
  "gallery_items p g =
     (if p_images p = [] then []
      else List.map_filter (gallery_item_of p g) (enumerate 0 (filteredImages p g)))"

definition rendered_images :: "gallery_props \<Rightarrow> gallery_state \<Rightarrow> image_artifact list" where
  "rendered_images p g = map item_image (gallery_items p g)"

text \<open>The compliance state of one image index: its entries of the three objects.\<close>

definition compliance_at ::
  "gallery_state \<Rightarrow> nat \<Rightarrow> bool option \<times> compliance_verdict option option \<times> js_string option option" where
  "compliance_at g i = (complianceLoading g i, complianceResults g i, complianceErrors g i)"


section \<open>App.jsx\<close>

text \<open>The body of a reply of \<open>/api/status/{job_id}\<close>.\<close>

record job_progress =
  step :: js_string
  progress :: nat

record job_status =
  status :: js_string
  st_progress :: "job_progress option"
  st_error :: "js_string option"

text \<open>The body of a reply of \<open>/api/images/{job_id}\<close>.\<close>

record generation_result =
  brand_name :: "js_string option"
  campaign_message :: "js_string option"
  translated_campaign_message :: "js_string option"
  images :: "image_artifact list"

text \<open>
  The value of \<open>isSensitiveContent\<close>. \<open>status.error && status.error.includes('sensitive')\<close>
  is \<open>status.error\<close> itself when that is falsy (absent, or the empty string) and the
  boolean otherwise.
\<close>

datatype js_flag = Absent | Str js_string | Bool bool

fun truthy_flag :: "js_flag \<Rightarrow> bool" where
  "truthy_flag Absent = False"
| "truthy_flag (Str s) = (s \<noteq> [])"
| "truthy_flag (Bool b) = b"

definition and_includes :: "js_string option \<Rightarrow> js_string \<Rightarrow> js_flag" where
  "and_includes e sub =
     (case e of None \<Rightarrow> Absent
      | Some s \<Rightarrow> if s = [] then Str s else Bool (includes_str s sub))"

record app_error =
  message :: js_string
  isSensitiveContent :: js_flag

text \<open>
  An interval registered by \<open>setInterval\<close>: its id, its delay in milliseconds, and the
  \<open>jobId\<close> its callback has captured.
\<close>

record timer =
  timer_id :: nat
  delay_ms :: nat
  timer_job :: js_string

datatype http_request =
    GetStatus js_string
  | GetImages js_string
  | PostGenerate campaign_request

text \<open>
  A call suspended at an \<open>await\<close>: the interval callback waiting for the status of a job
  or for its images (with the interval id it will clear), or \<open>handleGenerate\<close> waiting
  for the reply of \<open>/api/generate\<close>.
\<close>

datatype awaiting =
    AwaitStatus js_string nat
  | AwaitImages js_string nat
  | AwaitGenerate

text \<open>
  The state of \<open>App\<close>: the five \<open>useState\<close> cells, the interval of the polling effect
  while it is registered, the next interval id, the suspended calls and the log of the
  calls of \<open>fetch\<close>.
\<close>

record app_state =
  jobId :: "js_string option"
  jobStatus :: "job_status option"
  generatedImages :: "generation_result option"
  error :: "app_error option"
  lastCampaignData :: "campaign_request option"
  pollInterval :: "timer option"
  next_timer :: nat
  in_flight :: "awaiting list"
  fetches :: "http_request list"

definition App :: app_state where
  "App = \<lparr>jobId = None, jobStatus = None, generatedImages = None, error = None,
          lastCampaignData = None, pollInterval = None, next_timer = 0,
          in_flight = [], fetches = []\<rparr>"

definition clearInterval :: "nat \<Rightarrow> app_state \<Rightarrow> app_state" where
  "clearInterval iid s =
     (case pollInterval s of
        None \<Rightarrow> s
      | Some t \<Rightarrow> if timer_id t = iid then s\<lparr>pollInterval := None\<rparr> else s)"

text \<open>
  \<open>setJobId\<close> with the polling effect, which depends on \<open>[jobId]\<close>: when the value
  changes, the cleanup of the previous run clears its interval, and the new run registers
  an interval of 2000 ms unless the new \<open>jobId\<close> is falsy.
\<close>

definition setJobId :: "js_string option \<Rightarrow> app_state \<Rightarrow> app_state" where
  "setJobId j s =
     (if j = jobId s then s
      else if truthy j then
        s\<lparr>jobId := j,
          pollInterval := Some \<lparr>timer_id = next_timer s, delay_ms = 2000,
                                 timer_job = opt_or j []\<rparr>,
          next_timer := Suc (next_timer s)\<rparr>
      else s\<lparr>jobId := j, pollInterval := None\<rparr>)"

text \<open>The interval callback up to \<open>await fetch(.../api/status/${jobId})\<close>.\<close>

definition poll :: "timer \<Rightarrow> app_state \<Rightarrow> app_state" where
  "poll t s =
     s\<lparr>fetches := fetches s @ [GetStatus (timer_job t)],
       in_flight := in_flight s @ [AwaitStatus (timer_job t) (timer_id t)]\<rparr>"

text \<open>
  How an awaited status request ends: \<open>fetch\<close> or \<open>response.json()\<close> throws an error with
  a message, the response is not ok, or it is ok with a status body.
\<close>

datatype status_reply =
    StatusThrows js_string
  | StatusNotOk
  | StatusOk job_status

datatype images_reply =
    ImagesThrows js_string
  | ImagesNotOk
  | ImagesOk generation_result

datatype generate_reply =
    GenerateThrows js_string
  | GenerateNotOk "js_string option"
  | GenerateOk "js_string option"

text \<open>The \<open>catch\<close> block of the interval callback.\<close>

definition poll_catch :: "nat \<Rightarrow> js_string \<Rightarrow> app_state \<Rightarrow> app_state" where
  "poll_catch iid m s =
     (clearInterval iid s)\<lparr>error := Some \<lparr>message = m, isSensitiveContent = Bool False\<rparr>\<rparr>"

text \<open>The interval callback from the status reply to \<open>await fetch(.../api/images/${jobId})\<close>.\<close>

definition poll_status :: "js_string \<Rightarrow> nat \<Rightarrow> status_reply \<Rightarrow> app_state \<Rightarrow> app_state" where
  "poll_status j iid r s =
     (case r of
        StatusThrows m \<Rightarrow> poll_catch iid m s
      | StatusNotOk \<Rightarrow> poll_catch iid (js ''Failed to fetch status'') s
      | StatusOk st \<Rightarrow>
          let s1 = s\<lparr>jobStatus := Some st\<rparr> in
          if status st = js ''completed'' then
            let s2 = clearInterval iid s1 in
            s2\<lparr>fetches := fetches s2 @ [GetImages j],
               in_flight := in_flight s2 @ [AwaitImages j iid]\<rparr>
          else if status st = js ''failed'' then
            (clearInterval iid s1)
              \<lparr>error := Some \<lparr>message = opt_or (st_error st) (js ''Generation failed''),
                              isSensitiveContent = and_includes (st_error st) (js ''sensitive'')\<rparr>\<rparr>
          else s1)"

text \<open>The interval callback from the images reply to its end.\<close>

definition poll_images :: "nat \<Rightarrow> images_reply \<Rightarrow> app_state \<Rightarrow> app_state" where
  "poll_images iid r s =
     (case r of
        ImagesThrows m \<Rightarrow> poll_catch iid m s
      | ImagesNotOk \<Rightarrow> s
      | ImagesOk imgs \<Rightarrow> s\<lparr>generatedImages := Some imgs\<rparr>)"

text \<open>\<open>handleGenerate\<close> up to \<open>await fetch(.../api/generate)\<close>, and from its reply.\<close>

definition handleGenerate :: "campaign_request \<Rightarrow> app_state \<Rightarrow> app_state" where
  "handleGenerate campaignData s =
     s\<lparr>error := None, jobStatus := None, generatedImages := None,
       lastCampaignData := Some campaignData,
       fetches := fetches s @ [PostGenerate campaignData],
       in_flight := in_flight s @ [AwaitGenerate]\<rparr>"

definition handleGenerate_resume :: "generate_reply \<Rightarrow> app_state \<Rightarrow> app_state" where
  "handleGenerate_resume r s =
     (case r of
        GenerateThrows m \<Rightarrow>
          s\<lparr>error := Some \<lparr>message = m, isSensitiveContent = Bool False\<rparr>\<rparr>
      | GenerateNotOk detail \<Rightarrow>
          s\<lparr>error := Some \<lparr>message = opt_or detail (js ''Failed to start generation''),
                            isSensitiveContent = Bool False\<rparr>\<rparr>
      | GenerateOk job_id \<Rightarrow>
          (setJobId job_id s)
            \<lparr>jobStatus := Some \<lparr>status = js ''pending'', st_progress = None, st_error = None\<rparr>\<rparr>)"

definition handleReset :: "bool \<Rightarrow> app_state \<Rightarrow> app_state" where
  "handleReset clearData s =
     (let s1 = (setJobId None s)\<lparr>jobStatus := None, generatedImages := None, error := None\<rparr>
      in if clearData then s1\<lparr>lastCampaignData := None\<rparr> else s1)"

text \<open>
  What happens to the app: the runtime's interval timer elapses, a request in flight ends
  (the one at position \<open>k\<close> of \<open>in_flight\<close>), or the user submits a form or presses a
  reset button. A reply for a position that holds no call of its kind is not an event of
  the state: \<open>None\<close>.
\<close>

datatype app_event =
    Tick
  | StatusReply nat status_reply
  | ImagesReply nat images_reply
  | GenerateReply nat generate_reply
  | Generate campaign_request
  | Reset bool

definition awaiting_at :: "nat \<Rightarrow> app_state \<Rightarrow> awaiting option" where
  "awaiting_at k s = (if k < length (in_flight s) then Some (in_flight s ! k) else None)"

definition resumed :: "nat \<Rightarrow> app_state \<Rightarrow> app_state" where
  "resumed k s = s\<lparr>in_flight := remove_nth k (in_flight s)\<rparr>"

fun app_step :: "app_event \<Rightarrow> app_state \<Rightarrow> app_state option" where
  "app_step Tick s =
     (case pollInterval s of None \<Rightarrow> Some s | Some t \<Rightarrow> Some (poll t s))"
| "app_step (StatusReply k r) s =
     (case awaiting_at k s of
        Some (AwaitStatus j iid) \<Rightarrow> Some (poll_status j iid r (resumed k s))
      | _ \<Rightarrow> None)"
| "app_step (ImagesReply k r) s =
     (case awaiting_at k s of
        Some (AwaitImages j iid) \<Rightarrow> Some (poll_images iid r (resumed k s))
      | _ \<Rightarrow> None)"
| "app_step (GenerateReply k r) s =
     (case awaiting_at k s of
        Some AwaitGenerate \<Rightarrow> Some (handleGenerate_resume r (resumed k s))
      | _ \<Rightarrow> None)"
| "app_step (Generate campaignData) s = Some (handleGenerate campaignData s)"
| "app_step (Reset clearData) s = Some (handleReset clearData s)"

fun app_run :: "app_event list \<Rightarrow> app_state \<Rightarrow> app_state option" where
  "app_run [] s = Some s"
| "app_run (e # es) s = (case app_step e s of None \<Rightarrow> None | Some s' \<Rightarrow> app_run es s')"

text \<open>The events that need no action of the user.\<close>

fun is_passive :: "app_event \<Rightarrow> bool" where
  "is_passive Tick = True"
| "is_passive (StatusReply k r) = True"
| "is_passive (ImagesReply k r) = True"
| "is_passive _ = False"

definition status_fetches :: "app_state \<Rightarrow> http_request list" where
  "status_fetches s = filter (\<lambda>q. case q of GetStatus j \<Rightarrow> True | _ \<Rightarrow> False) (fetches s)"

definition images_fetches :: "app_state \<Rightarrow> http_request list" where
  "images_fetches s = filter (\<lambda>q. case q of GetImages j \<Rightarrow> True | _ \<Rightarrow> False) (fetches s)"

text \<open>
  What \<open>App\<close> renders, top to bottom: the main form (without \<open>initialData\<close>), the status
  card, the error card with its buttons, the retry form with
  \<open>initialData={lastCampaignData}\<close>, the results with their button.
\<close>

datatype button = ModifyAndRetry | StartOver | TryAgain | CreateNewCampaign

datatype view =
    MainForm
  | StatusCard job_status
  | ErrorCard app_error "button list"
  | RetryForm campaign_request
  | Results generation_result "button list"

definition render :: "app_state \<Rightarrow> view list" where
  "render s =
     (if \<not> truthy (jobId s) \<and> generatedImages s = None \<and> error s = None
      then [MainForm] else []) @
     (case jobStatus s of
        None \<Rightarrow> []
      | Some st \<Rightarrow>
          if truthy (jobId s) \<and> status st \<noteq> js ''completed'' then [StatusCard st] else []) @
     (case error s of
        None \<Rightarrow> []
      | Some e \<Rightarrow>
          [ErrorCard e (if truthy_flag (isSensitiveContent e)
                        then [ModifyAndRetry, StartOver] else [TryAgain])] @
          (if truthy_flag (isSensitiveContent e)
           then (case lastCampaignData s of None \<Rightarrow> [] | Some d \<Rightarrow> [RetryForm d])
           else [])) @
     (case generatedImages s of
        None \<Rightarrow> []
      | Some g \<Rightarrow> [Results g [CreateNewCampaign]])"

text \<open>
  The \<open>onClick\<close> of each button. \<open>onClick={handleReset}\<close> passes the click event as
  \<open>clearData\<close>, which is truthy.
\<close>

fun click :: "button \<Rightarrow> app_state \<Rightarrow> app_state" where
  "click ModifyAndRetry s = handleReset False s"
| "click StartOver s = handleReset True s"
| "click TryAgain s = handleReset True s"
| "click CreateNewCampaign s = handleReset True s"





text \<open>
  Both forms are rendered with \<open>onGenerate={handleGenerate}\<close>: submitting the form \<open>f\<close>
  runs \<open>handleSubmit\<close>, and \<open>handleGenerate\<close> on what it passes to \<open>onGenerate\<close>.
\<close>

definition submit_form :: "campaign_form \<Rightarrow> app_state \<Rightarrow> campaign_form \<times> app_state" where
  "submit_form f s =
     (case handleSubmit f of
        (f', None) \<Rightarrow> (f', s)
      | (f', Some campaignData) \<Rightarrow> (f', handleGenerate campaignData s))"

text \<open>
  A state in which no poll can follow without the user: no interval is registered and no
  status request is in flight.
\<close>

fun is_AwaitStatus :: "awaiting \<Rightarrow> bool" where
  "is_AwaitStatus (AwaitStatus j iid) = True"
| "is_AwaitStatus _ = False"

definition quiescent :: "app_state \<Rightarrow> bool" where
  "quiescent s \<longleftrightarrow> pollInterval s = None \<and> \<not> list_ex is_AwaitStatus (in_flight s)"



section \<open>Sample inputs\<close>

text \<open>A form with one product and one blank row.\<close>

definition form_one_product :: campaign_form where
  "form_one_product =
     \<lparr>products = [js ''shoe'', js '' ''], targetMarket = js ''US'',
      targetAudience = js ''adults'', brandName = [], campaignMessage = [],
      errors = no_errors\<rparr>"

text \<open>A form that passes validation, with blanks around its entries.\<close>

definition form_padded :: campaign_form where
  "form_padded =
     \<lparr>products = [js '' shoe'', js '' '', js ''hat ''], targetMarket = js ''US'',
      targetAudience = js '' adults '', brandName = js '' Acme '', campaignMessage = js ''  '',
      errors = no_errors\<rparr>"

definition request_padded :: campaign_request where
  "request_padded =
     \<lparr>cr_products = [js '' shoe'', js ''hat ''], cr_target_market = js ''US'',
      cr_target_audience = js '' adults '', cr_brand_name = Some (js ''Acme''),
      cr_campaign_message = None\<rparr>"

text \<open>Edits of a fresh form that end with two rows.\<close>

definition sample_edits :: "product_op list" where
  "sample_edits =
     [AddProduct, UpdateProduct 2 (js ''hat''), RemoveProduct 0, RemoveProduct 0,
      UpdateProduct 0 (js ''shoe''), RemoveProduct 1]"

definition form_edited :: campaign_form where
  "form_edited = (CampaignForm None)\<lparr>products := [js ''shoe'', js ''hat'']\<rparr>"


text \<open>A gallery of three images, two of them square.\<close>

definition sample_images :: "image_artifact list" where
  "sample_images =
     [\<lparr>aspect_ratio = js ''1:1'', url = None, path = Some (js ''a.png''),
       size_px = Some (2048, 2048)\<rparr>,
      \<lparr>aspect_ratio = js ''9:16'', url = Some (js ''/outputs/b.png''), path = None,
       size_px = None\<rparr>,
      \<lparr>aspect_ratio = js ''1:1'', url = None, path = Some (js ''c.png''), size_px = None\<rparr>]"

definition sample_props :: gallery_props where
  "sample_props =
     \<lparr>p_images = sample_images, p_apiBaseUrl = js ''http://localhost:8000'',
      p_brandName = Some (js ''Acme''), p_campaignMessage = None\<rparr>"

definition props_no_brand :: gallery_props where
  "props_no_brand = sample_props\<lparr>p_brandName := None\<rparr>"

definition sample_verdict :: compliance_verdict where
  "sample_verdict =
     \<lparr>compliance_status = Some (js ''compliant''), brand_name_found = True,
      logo_visible = True, logo_description = None, detected_text = [js ''Acme''],
      compliance_notes = None\<rparr>"

text \<open>The gallery with the checks of the images 0 and 2 in flight.\<close>

definition gallery_checking :: gallery_state where
  "gallery_checking =
     handleCheckCompliance sample_props (Some (js ''c.png'')) 2
       (handleCheckCompliance sample_props (Some (js ''a.png'')) 0 ImageGallery)"



definition sample_job :: js_string where
  "sample_job = js ''job-1''"

definition status_pending :: job_status where
  "status_pending = \<lparr>status = js ''pending'', st_progress = None, st_error = None\<rparr>"

definition status_completed :: job_status where
  "status_completed =
     \<lparr>status = js ''completed'', st_progress = Some \<lparr>step = js ''Done'', progress = 100\<rparr>,
      st_error = None\<rparr>"

definition status_flagged :: job_status where
  "status_flagged =
     \<lparr>status = js ''failed'', st_progress = None,
      st_error = Some (js ''Content flagged as sensitive'')\<rparr>"

definition status_failed :: job_status where
  "status_failed = \<lparr>status = js ''failed'', st_progress = None, st_error = None\<rparr>"

text \<open>
  The app after \<open>request_padded\<close> was submitted, the job \<open>job-1\<close> was started and the
  interval has fired once.
\<close>

definition app_polling :: app_state where
  "app_polling =
     \<lparr>jobId = Some sample_job, jobStatus = Some status_pending, generatedImages = None,
      error = None, lastCampaignData = Some request_padded,
      pollInterval = Some \<lparr>timer_id = 0, delay_ms = 2000, timer_job = sample_job\<rparr>,
      next_timer = 1, in_flight = [AwaitStatus sample_job 0],
      fetches = [PostGenerate request_padded, GetStatus sample_job]\<rparr>"






text \<open>
  A run in which the interval fires twice before the first status reply arrives, and both
  replies report the job completed.
\<close>

definition overlapping_polls :: "app_event list" where
  "overlapping_polls =
     [Generate request_padded, GenerateReply 0 (GenerateOk (Some sample_job)),
      Tick, Tick,
      StatusReply 0 (StatusOk status_completed), StatusReply 0 (StatusOk status_completed)]"


section \<open>Properties of the campaign form\<close>

lemma js_Nil: "js [] = []"
  by (simp add: js_def)

lemma js_Cons: "js (c # cs) = of_char c # js cs"
  by (simp add: js_def)

lemma trim_Nil: "trim [] = []"
  by (simp add: trim_def)

text \<open>A string that is not blank is not empty.\<close>

lemma trim_nonempty: "trim s \<noteq> [] \<Longrightarrow> s \<noteq> []"
  by (auto simp: trim_Nil)

text \<open>
  C1. A submitted form with fewer than two products that are non-empty after trimming
  gets the products error \<open>At least 2 products are required\<close>, and \<open>onGenerate\<close> is
  not called: the app is left as it was, with no request issued.
\<close>

theorem submit_too_few_products:
  assumes "length (filter (\<lambda>p. trim p \<noteq> []) (products f)) < 2"
  shows "snd (handleSubmit f) = None \<and>
         err_products (errors (fst (handleSubmit f)))
           = Some (js ''At least 2 products are required'') \<and>
         snd (submit_form f s) = s"
  using assms
  by (simp add: submit_form_def handleSubmit_def validate_def validProducts_def Let_def)

theorem submit_too_few_products_witness:
  "length (filter (\<lambda>p. trim p \<noteq> []) (products form_one_product)) < 2 \<and>
   snd (handleSubmit form_one_product) = None \<and>
   err_products (errors (fst (handleSubmit form_one_product)))
     = Some (js ''At least 2 products are required'') \<and>
   fetches (snd (submit_form form_one_product App)) = []"
  using submit_too_few_products [of form_one_product App]
  by (simp add: form_one_product_def trim_def isWhiteSpace_def js_def App_def)

text \<open>What a form that passes validation passes to \<open>onGenerate\<close>.\<close>

lemma handleSubmit_emits:
  assumes "snd (validate f)"
  shows "snd (handleSubmit f) =
           Some \<lparr>cr_products = filter (\<lambda>p. trim p \<noteq> []) (products f),
                 cr_target_market = targetMarket f,
                 cr_target_audience = targetAudience f,
                 cr_brand_name =
                   (if trim (brandName f) = [] then None else Some (trim (brandName f))),
                 cr_campaign_message =
                   (if trim (campaignMessage f) = [] then None
                    else Some (trim (campaignMessage f)))\<rparr>"
  using assms by (cases "validate f") (simp add: handleSubmit_def validProducts_def Let_def)

lemma validate_ok_iff:
  "snd (validate f) \<longleftrightarrow>
     2 \<le> length (filter (\<lambda>p. trim p \<noteq> []) (products f))
       \<and> trim (targetMarket f) \<noteq> [] \<and> trim (targetAudience f) \<noteq> []"
  by (auto simp: validate_def validProducts_def Let_def)

text \<open>
  C3. The form \<open>form_padded\<close> passes validation. Its brand name is passed trimmed and
  its blank campaign message as \<open>null\<close>, but its products and its target audience are
  passed with their blanks.
\<close>

theorem submit_padded_not_trimmed:
  "snd (handleSubmit form_padded) = Some request_padded \<and>
   cr_products request_padded \<noteq> map trim (cr_products request_padded) \<and>
   cr_target_audience request_padded \<noteq> trim (cr_target_audience request_padded)"
  by (simp add: handleSubmit_def validate_def validProducts_def Let_def form_padded_def
      request_padded_def trim_def isWhiteSpace_def js_def)

lemma filter_index_above:
  "index < n \<Longrightarrow> filter (\<lambda>(i, x). i \<noteq> index) (enumerate n xs) = enumerate n xs"
  by (induction xs arbitrary: n) auto

lemma filter_index_enumerate_length:
  "length xs \<le> Suc (length (filter (\<lambda>(i, x). i \<noteq> index) (enumerate n xs)))"
proof (induction xs arbitrary: n)
  case Nil
  show ?case by simp
next
  case (Cons x xs)
  show ?case
  proof (cases "n = index")
    case True
    then have "filter (\<lambda>(i, x). i \<noteq> index) (enumerate (Suc n) xs) = enumerate (Suc n) xs"
      by (simp add: filter_index_above)
    with True show ?thesis by simp
  next
    case False
    with Cons.IH [of "Suc n"] show ?thesis by simp
  qed
qed

lemma length_filter_index: "length xs \<le> Suc (length (filter_index index xs))"
  by (simp add: filter_index_def filter_index_enumerate_length)

lemma product_step_length:
  assumes "2 \<le> length (products f)" and "product_step x f = Some f'"
  shows "2 \<le> length (products f')"
proof (cases x)
  case AddProduct
  with assms show ?thesis by (auto simp: addProduct_def)
next
  case (RemoveProduct i)
  with assms length_filter_index [of "products f" i] show ?thesis
    by (auto simp: removeProduct_def split: if_splits)
next
  case (UpdateProduct i v)
  with assms show ?thesis by (auto simp: updateProduct_def split: if_splits)
qed

lemma product_steps_length:
  "2 \<le> length (products f) \<Longrightarrow> product_steps ops f = Some f' \<Longrightarrow> 2 \<le> length (products f')"
proof (induction ops arbitrary: f)
  case Nil
  then show ?case by simp
next
  case (Cons x xs)
  then show ?case by (auto split: option.splits dest: product_step_length)
qed

text \<open>A form is mounted with at least two product rows.\<close>

lemma mounted_products_at_least_two:
  "2 \<le> length (products (CampaignForm None))"
  "snd (handleSubmit f) = Some d \<Longrightarrow> 2 \<le> length (products (CampaignForm (Some d)))"
proof -
  show "2 \<le> length (products (CampaignForm None))"
    by (simp add: CampaignForm_def)
  assume d: "snd (handleSubmit f) = Some d"
  then have "snd (validate f)"
    by (cases "validate f") (auto simp: handleSubmit_def Let_def split: if_splits)
  with d show "2 \<le> length (products (CampaignForm (Some d)))"
    by (auto simp: handleSubmit_emits validate_ok_iff CampaignForm_def)
qed

text \<open>
  C9. From a form with at least two product rows, every sequence of \<open>addProduct\<close>,
  \<open>removeProduct\<close> and \<open>updateProduct\<close> leaves at least two rows; with exactly two
  rows \<open>removeProduct\<close> changes nothing, and a remove button is rendered only with more
  than two rows.
\<close>

theorem products_never_below_two:
  assumes "2 \<le> length (products f)" and "product_steps ops f = Some f'"
  shows "2 \<le> length (products f') \<and>
         (length (products f') = 2 \<longrightarrow> removeProduct index f' = f') \<and>
         (remove_rendered f' index \<longrightarrow> 2 < length (products f'))"
  using product_steps_length [OF assms]
  by (simp add: removeProduct_def remove_rendered_def)

theorem products_never_below_two_witness:
  "2 \<le> length (products (CampaignForm None)) \<and>
   product_steps sample_edits (CampaignForm None) = Some form_edited \<and>
   length (products form_edited) = 2 \<and>
   removeProduct 0 form_edited = form_edited \<and> \<not> remove_rendered form_edited 0"
  using products_never_below_two [of "CampaignForm None" sample_edits form_edited 0]
  by (simp add: CampaignForm_def sample_edits_def form_edited_def addProduct_def
      removeProduct_def updateProduct_def filter_index_def remove_rendered_def)


section \<open>Properties of the image gallery\<close>

text \<open>
  C5. When the brand name or the image path is absent (or empty),
  \<open>handleCheckCompliance\<close> records \<open>Missing brand name or image\<close> for the image index,
  calls \<open>fetch\<close> not at all and leaves no call in flight.
\<close>

theorem compliance_missing_input:
  assumes "\<not> truthy (p_brandName p) \<or> \<not> truthy imagePath"
  shows "complianceErrors (handleCheckCompliance p imagePath imageIndex g) imageIndex
           = Some (Some (js ''Missing brand name or image'')) \<and>
         compliance_fetches (handleCheckCompliance p imagePath imageIndex g)
           = compliance_fetches g \<and>
         compliance_in_flight (handleCheckCompliance p imagePath imageIndex g)
           = compliance_in_flight g"
  using assms by (auto simp add: handleCheckCompliance_def)

theorem compliance_missing_input_witness:
  "\<not> truthy (p_brandName props_no_brand) \<and>
   complianceErrors (handleCheckCompliance props_no_brand (Some (js ''a.png'')) 0 ImageGallery) 0
     = Some (Some (js ''Missing brand name or image'')) \<and>
   compliance_fetches (handleCheckCompliance props_no_brand (Some (js ''a.png'')) 0 ImageGallery)
     = []"
  using compliance_missing_input [of props_no_brand "Some (js ''a.png'')" 0 ImageGallery]
  by (simp add: props_no_brand_def truthy_def ImageGallery_def)

lemma map_filter_Nil: "List.map_filter f [] = []"
  by (simp add: List.map_filter_def)

lemma map_filter_Cons:
  "List.map_filter f (x # xs) =
     (case f x of None \<Rightarrow> List.map_filter f xs | Some y \<Rightarrow> y # List.map_filter f xs)"
  by (simp add: List.map_filter_def split: option.splits)

lemma item_images_enumerate:
  "map item_image (List.map_filter (gallery_item_of p g) (enumerate n xs))
     = filter (\<lambda>img. getImageUrl (p_apiBaseUrl p) img \<noteq> None) xs"
  by (induction xs arbitrary: n)
     (auto simp: map_filter_Nil map_filter_Cons gallery_item_of_def split: option.splits)

text \<open>The gallery renders the images of \<open>filteredImages\<close> that have a URL, in order.\<close>

lemma rendered_images_eq:
  "rendered_images p g =
     filter (\<lambda>img. getImageUrl (p_apiBaseUrl p) img \<noteq> None) (filteredImages p g)"
  by (auto simp: rendered_images_def gallery_items_def item_images_enumerate filteredImages_def)

lemma filter_all: "\<forall>x \<in> set xs. P x \<Longrightarrow> filter P (filter Q xs) = filter Q xs"
  by (induction xs) auto

text \<open>
  C6. With the aspect ratio \<open>r\<close> selected, the images the gallery maps over are exactly
  the images whose \<open>aspect_ratio\<close> is \<open>r\<close>, in their order; with none selected they are
  all images, in order; these are the images rendered when every image has a location
  (a \<open>url\<close> or a \<open>path\<close>); and selecting issues no request. An aspect ratio is a
  non-empty string: the empty string is falsy and would count as no selection.
\<close>

theorem gallery_filter_by_aspect_ratio:
  assumes "r \<noteq> []"
  shows "filteredImages p (setSelectedAspectRatio (Some r) g)
           = filter (\<lambda>img. aspect_ratio img = r) (p_images p) \<and>
         filteredImages p (setSelectedAspectRatio None g) = p_images p \<and>
         ((\<forall>img \<in> set (p_images p). getImageUrl (p_apiBaseUrl p) img \<noteq> None) \<longrightarrow>
            rendered_images p (setSelectedAspectRatio (Some r) g)
              = filter (\<lambda>img. aspect_ratio img = r) (p_images p) \<and>
            rendered_images p (setSelectedAspectRatio None g) = p_images p) \<and>
         compliance_fetches (setSelectedAspectRatio sel g) = compliance_fetches g"
proof -
  have sub: "filter (\<lambda>img. getImageUrl (p_apiBaseUrl p) img \<noteq> None)
               (filter (\<lambda>img. aspect_ratio img = r) (p_images p))
             = filter (\<lambda>img. aspect_ratio img = r) (p_images p)"
    if "\<forall>img \<in> set (p_images p). getImageUrl (p_apiBaseUrl p) img \<noteq> None"
    using that by (rule filter_all)
  have all: "filter (\<lambda>img. getImageUrl (p_apiBaseUrl p) img \<noteq> None) (p_images p) = p_images p"
    if "\<forall>img \<in> set (p_images p). getImageUrl (p_apiBaseUrl p) img \<noteq> None"
    using that by simp
  have sel: "filteredImages p (setSelectedAspectRatio (Some r) g)
               = filter (\<lambda>img. aspect_ratio img = r) (p_images p)"
    using assms by (simp add: filteredImages_def setSelectedAspectRatio_def truthy_def)
  have none: "filteredImages p (setSelectedAspectRatio None g) = p_images p"
    by (simp add: filteredImages_def setSelectedAspectRatio_def truthy_def)
  have log: "compliance_fetches (setSelectedAspectRatio sel g) = compliance_fetches g"
    by (simp add: setSelectedAspectRatio_def)
  show ?thesis
    using sub all by (simp only: rendered_images_eq sel none log) simp
qed

theorem gallery_filter_by_aspect_ratio_witness:
  "filteredImages sample_props (setSelectedAspectRatio (Some (js ''1:1'')) ImageGallery)
     = [sample_images ! 0, sample_images ! 2] \<and>
   rendered_images sample_props (setSelectedAspectRatio (Some (js ''1:1'')) ImageGallery)
     = [sample_images ! 0, sample_images ! 2] \<and>
   rendered_images sample_props (setSelectedAspectRatio None ImageGallery) = sample_images"
  using gallery_filter_by_aspect_ratio [of "js ''1:1''" sample_props ImageGallery None]
  by (simp add: sample_props_def sample_images_def getImageUrl_def truthy_def js_def)

lemma gallery_item_of_Some:
  "gallery_item_of p g (index, img) = Some item \<Longrightarrow>
     item_index item = index \<and> item_image item = img \<and>
     (item_loading item, item_result item, item_error item) = compliance_at g index \<and>
     item_check item = (if truthy (p_brandName p) then Some (path img, index) else None)"
  by (auto simp: gallery_item_of_def compliance_at_def split: option.splits)

text \<open>
  Every rendered item carries its position in \<open>filteredImages\<close>: it shows the compliance
  state of that index, and its button passes that index to \<open>handleCheckCompliance\<close>.
\<close>

lemma gallery_items_index:
  assumes "item \<in> set (gallery_items p g)"
  shows "item_index item < length (filteredImages p g) \<and>
         item_image item = filteredImages p g ! item_index item \<and>
         (item_loading item, item_result item, item_error item)
           = compliance_at g (item_index item) \<and>
         item_check item =
           (if truthy (p_brandName p) then Some (path (item_image item), item_index item)
            else None)"
proof -
  from assms obtain index img where
    mem: "(index, img) \<in> set (enumerate 0 (filteredImages p g))" and
    some: "gallery_item_of p g (index, img) = Some item"
    by (auto simp: gallery_items_def List.map_filter_def split: if_splits)
  from mem have "index < length (filteredImages p g)" and "filteredImages p g ! index = img"
    by (simp_all add: in_set_enumerate_eq)
  with gallery_item_of_Some [OF some] show ?thesis by simp
qed

lemma handleCheckCompliance_frame:
  "j \<noteq> i \<Longrightarrow> compliance_at (handleCheckCompliance p imagePath i g) j = compliance_at g j"
  by (simp add: handleCheckCompliance_def compliance_at_def)

lemma handleCheckCompliance_resume_frame:
  assumes "k < length (compliance_in_flight g)" and "compliance_in_flight g ! k = i"
    and "j \<noteq> i"
  shows "\<exists>g'. handleCheckCompliance_resume k r g = Some g' \<and>
              compliance_at g' j = compliance_at g j"
  using assms
  by (cases r) (simp_all add: handleCheckCompliance_resume_def compliance_at_def Let_def)

text \<open>
  C8. The compliance state is keyed by the image's index in the rendered sequence
  \<open>filteredImages\<close>, and a check for index \<open>i\<close>, from its start to the end of its request,
  leaves the loading, result and error entries of every other index \<open>j\<close> as they were.
\<close>

theorem compliance_state_per_index:
  assumes "j \<noteq> i"
  shows "compliance_at (handleCheckCompliance p imagePath i g) j = compliance_at g j \<and>
         (k < length (compliance_in_flight g) \<and> compliance_in_flight g ! k = i \<longrightarrow>
            (\<exists>g'. handleCheckCompliance_resume k r g = Some g' \<and>
                  compliance_at g' j = compliance_at g j)) \<and>
         (\<forall>item \<in> set (gallery_items p g).
            item_index item < length (filteredImages p g) \<and>
            item_image item = filteredImages p g ! item_index item \<and>
            (item_loading item, item_result item, item_error item)
              = compliance_at g (item_index item) \<and>
            item_check item =
              (if truthy (p_brandName p) then Some (path (item_image item), item_index item)
               else None))"
  using assms handleCheckCompliance_frame [of j i p imagePath g]
    handleCheckCompliance_resume_frame [of k g i j r] gallery_items_index [of _ p g]
  by blast

theorem compliance_state_per_index_witness:
  "compliance_in_flight gallery_checking = [0, 2] \<and>
   compliance_at gallery_checking 0 = (Some True, Some None, Some None) \<and>
   compliance_at (handleCheckCompliance sample_props (Some (js ''c.png'')) 2 gallery_checking) 0
     = (Some True, Some None, Some None) \<and>
   (\<exists>g'. handleCheckCompliance_resume 1 (ComplianceOk sample_verdict) gallery_checking = Some g' \<and>
         compliance_at g' 0 = (Some True, Some None, Some None) \<and>
         compliance_at g' 2 = (Some False, Some (Some sample_verdict), Some None))"
  using compliance_state_per_index [of 0 2 sample_props "Some (js ''c.png'')" gallery_checking 1
      "ComplianceOk sample_verdict"]
  by (auto simp add: gallery_checking_def handleCheckCompliance_def
      handleCheckCompliance_resume_def compliance_at_def sample_props_def truthy_def
      ImageGallery_def js_def remove_nth_def Let_def)

section \<open>Properties of the app\<close>

lemmas app_defs = App_def handleGenerate_def handleGenerate_resume_def setJobId_def poll_def
  poll_status_def poll_images_def poll_catch_def clearInterval_def handleReset_def
  awaiting_at_def resumed_def remove_nth_def truthy_def opt_or_def str_or_def

text \<open>\<open>includes\<close> is the contiguous-sublist relation of the library.\<close>

lemma starts_with_prefix: "starts_with s sub \<longleftrightarrow> prefix sub s"
  by (induction s sub rule: starts_with.induct) auto

lemma includes_str_sublist: "includes_str s sub \<longleftrightarrow> sublist sub s"
  by (induction s) (auto simp: starts_with_prefix sublist_Cons_right)

lemma clearInterval_fields:
  "jobId (clearInterval iid s) = jobId s"
  "jobStatus (clearInterval iid s) = jobStatus s"
  "generatedImages (clearInterval iid s) = generatedImages s"
  "error (clearInterval iid s) = error s"
  "lastCampaignData (clearInterval iid s) = lastCampaignData s"
  "next_timer (clearInterval iid s) = next_timer s"
  "in_flight (clearInterval iid s) = in_flight s"
  "fetches (clearInterval iid s) = fetches s"
  by (simp_all add: clearInterval_def split: option.splits)

lemma clearInterval_own:
  "\<forall>t. pollInterval s = Some t \<longrightarrow> timer_id t = iid \<Longrightarrow>
     pollInterval (clearInterval iid s) = None"
  by (simp add: clearInterval_def split: option.splits)

text \<open>The sample state \<open>app_polling\<close> is reached from the initial state of the app.\<close>

lemma app_polling_reached:
  "app_run [Generate request_padded, GenerateReply 0 (GenerateOk (Some sample_job)), Tick] App
     = Some app_polling"
  by (simp add: app_defs app_polling_def sample_job_def status_pending_def js_def)

text \<open>
  C4. When the reply of a poll has the status \<open>failed\<close>, the error the app records is
  flagged as sensitive content exactly when the status carries an error message that
  contains \<open>sensitive\<close>; its message is the status's error message, or
  \<open>Generation failed\<close> when there is none.
\<close>

theorem failed_status_classification:
  assumes "awaiting_at k s = Some (AwaitStatus j iid)" and "status st = js ''failed''"
  shows "\<exists>s' e. app_step (StatusReply k (StatusOk st)) s = Some s' \<and> error s' = Some e \<and>
           message e = opt_or (st_error st) (js ''Generation failed'') \<and>
           (truthy_flag (isSensitiveContent e) \<longleftrightarrow>
              (\<exists>m. st_error st = Some m \<and> sublist (js ''sensitive'') m))"
proof -
  have ne: "js ''failed'' \<noteq> js ''completed''"
    by (simp add: js_def)
  have flag: "truthy_flag (and_includes (st_error st) (js ''sensitive'')) \<longleftrightarrow>
                (\<exists>m. st_error st = Some m \<and> sublist (js ''sensitive'') m)"
    by (auto simp: and_includes_def includes_str_sublist js_def split: option.splits)
  show ?thesis
    using assms ne flag by (simp add: poll_status_def Let_def)
qed

theorem failed_status_classification_witness:
  "awaiting_at 0 app_polling = Some (AwaitStatus sample_job 0) \<and>
   (\<exists>s' e. app_step (StatusReply 0 (StatusOk status_flagged)) app_polling = Some s' \<and>
           error s' = Some e \<and> truthy_flag (isSensitiveContent e)) \<and>
   (\<exists>s' e. app_step (StatusReply 0 (StatusOk status_failed)) app_polling = Some s' \<and>
           error s' = Some e \<and> message e = js ''Generation failed'' \<and>
           \<not> truthy_flag (isSensitiveContent e))"
  using failed_status_classification [of 0 app_polling sample_job 0 status_flagged]
    failed_status_classification [of 0 app_polling sample_job 0 status_failed]
  by (simp add: app_polling_def app_defs status_flagged_def status_failed_def
      and_includes_def js_def Let_def)

text \<open>Once no interval is registered, the events that need no user issue no status request.\<close>

lemma passive_step_cleared:
  assumes "pollInterval s = None" and "is_passive e" and "app_step e s = Some s'"
  shows "pollInterval s' = None \<and> status_fetches s' = status_fetches s"
proof (cases e)
  case Tick
  with assms show ?thesis by simp
next
  case (StatusReply k r)
  with assms show ?thesis
    by (cases r)
       (auto simp: poll_status_def poll_catch_def clearInterval_def resumed_def
          status_fetches_def Let_def split: option.splits awaiting.splits if_splits)
next
  case (ImagesReply k r)
  with assms show ?thesis
    by (cases r)
       (auto simp: poll_images_def poll_catch_def clearInterval_def resumed_def
          status_fetches_def split: option.splits awaiting.splits)
qed (use assms in simp_all)

lemma passive_run_cleared:
  "pollInterval s = None \<Longrightarrow> list_all is_passive es \<Longrightarrow> app_run es s = Some s' \<Longrightarrow>
     pollInterval s' = None \<and> status_fetches s' = status_fetches s"
proof (induction es arbitrary: s)
  case Nil
  then show ?case by simp
next
  case (Cons e es)
  from Cons.prems obtain s1 where step: "app_step e s = Some s1"
    and run: "app_run es s1 = Some s'"
    by (auto split: option.splits)
  from passive_step_cleared [OF Cons.prems(1) _ step] Cons.prems(2)
  have "pollInterval s1 = None" and "status_fetches s1 = status_fetches s" by simp_all
  with Cons.IH [OF _ _ run] Cons.prems(2) show ?case by simp
qed

text \<open>
  C10. When a status poll of the registered interval fails (\<open>fetch\<close> throws, or the
  response is not ok), the interval is cleared and an error that is not flagged as
  sensitive is recorded; from then on, whatever timer ticks and replies follow, no
  interval is registered and no further status request is issued.
\<close>

theorem poll_failure_stops_polling:
  assumes "awaiting_at k s = Some (AwaitStatus j iid)"
    and "\<forall>t. pollInterval s = Some t \<longrightarrow> timer_id t = iid"
    and "r = StatusThrows m \<or> r = StatusNotOk \<and> m = js ''Failed to fetch status''"
  shows "\<exists>s'. app_step (StatusReply k r) s = Some s' \<and>
           pollInterval s' = None \<and>
           error s' = Some \<lparr>message = m, isSensitiveContent = Bool False\<rparr> \<and>
           status_fetches s' = status_fetches s \<and>
           (\<forall>es s''. list_all is_passive es \<and> app_run es s' = Some s'' \<longrightarrow>
              pollInterval s'' = None \<and> status_fetches s'' = status_fetches s')"
proof -
  let ?s' = "poll_catch iid m (resumed k s)"
  have step: "app_step (StatusReply k r) s = Some ?s'"
    using assms(1,3) by (auto simp: poll_status_def)
  have "\<forall>t. pollInterval (resumed k s) = Some t \<longrightarrow> timer_id t = iid"
    using assms(2) by (simp add: resumed_def)
  then have cleared: "pollInterval ?s' = None"
    by (simp add: poll_catch_def clearInterval_own)
  have err: "error ?s' = Some \<lparr>message = m, isSensitiveContent = Bool False\<rparr>"
    by (simp add: poll_catch_def)
  have same: "status_fetches ?s' = status_fetches s"
    by (simp add: poll_catch_def status_fetches_def clearInterval_fields resumed_def)
  from step cleared err same passive_run_cleared [OF cleared] show ?thesis by blast
qed

theorem poll_failure_stops_polling_witness:
  "awaiting_at 0 app_polling = Some (AwaitStatus sample_job 0) \<and>
   (\<exists>s'. app_step (StatusReply 0 StatusNotOk) app_polling = Some s' \<and>
         pollInterval s' = None \<and>
         error s' = Some \<lparr>message = js ''Failed to fetch status'',
                          isSensitiveContent = Bool False\<rparr> \<and>
         (\<exists>s''. app_run [Tick, Tick] s' = Some s'' \<and>
                status_fetches s'' = [GetStatus sample_job]))"
  using poll_failure_stops_polling [of 0 app_polling sample_job 0 StatusNotOk
      "js ''Failed to fetch status''"]
  by (simp add: app_polling_def app_defs status_fetches_def)

text \<open>
  C2. In the run \<open>overlapping_polls\<close> the interval fires twice before the first status
  reply arrives. Both polls are answered \<open>completed\<close>: the interval is cleared and no
  third poll follows, but the images of the job are requested twice.
\<close>

theorem overlapping_polls_fetch_images_twice:
  "map_option status_fetches (app_run overlapping_polls App)
     = Some [GetStatus sample_job, GetStatus sample_job] \<and>
   map_option images_fetches (app_run overlapping_polls App)
     = Some [GetImages sample_job, GetImages sample_job] \<and>
   map_option pollInterval (app_run overlapping_polls App) = Some None"
  by (simp add: overlapping_polls_def app_defs status_fetches_def images_fetches_def
      status_completed_def sample_job_def js_def Let_def)

text \<open>The polling effect registers its interval with a delay of 2000 ms.\<close>

lemma setJobId_interval:
  assumes "j \<noteq> []" and "jobId s \<noteq> Some j"
  shows "pollInterval (setJobId (Some j) s)
           = Some \<lparr>timer_id = next_timer s, delay_ms = 2000, timer_job = j\<rparr>"
  using assms by (auto simp: setJobId_def truthy_def opt_or_def str_or_def)

text \<open>While the interval is registered, each tick requests the status of its job.\<close>

lemma tick_polls:
  "pollInterval s = Some t \<Longrightarrow>
     \<exists>s'. app_step Tick s = Some s' \<and> fetches s' = fetches s @ [GetStatus (timer_job t)] \<and>
          pollInterval s' = Some t"
  by (simp add: poll_def)

lemma remove_nth_subset: "set (remove_nth k xs) \<subseteq> set xs"
  by (auto simp: remove_nth_def dest: in_set_takeD in_set_dropD)

lemma quiescent_step:
  assumes "quiescent s" and "is_passive e" and "app_step e s = Some s'"
  shows "quiescent s' \<and> fetches s' = fetches s"
proof (cases e)
  case Tick
  with assms show ?thesis by (simp add: quiescent_def)
next
  case (StatusReply k r)
  with assms(3) obtain j iid where "awaiting_at k s = Some (AwaitStatus j iid)"
    by (auto split: option.splits awaiting.splits)
  then have "AwaitStatus j iid \<in> set (in_flight s)"
    by (metis awaiting_at_def nth_mem option.distinct(1) option.inject)
  with assms(1) show ?thesis
    by (auto simp: quiescent_def list_ex_iff)
next
  case (ImagesReply k r)
  have sub: "set (remove_nth k (in_flight s)) \<subseteq> set (in_flight s)"
    by (rule remove_nth_subset)
  from ImagesReply assms sub show ?thesis
    by (cases r)
       (auto simp: poll_images_def poll_catch_def clearInterval_def resumed_def
          quiescent_def list_ex_iff split: option.splits awaiting.splits)
qed (use assms in simp_all)

lemma quiescent_run:
  "quiescent s \<Longrightarrow> list_all is_passive es \<Longrightarrow> app_run es s = Some s' \<Longrightarrow>
     quiescent s' \<and> fetches s' = fetches s"
proof (induction es arbitrary: s)
  case Nil
  then show ?case by simp
next
  case (Cons e es)
  from Cons.prems obtain s1 where step: "app_step e s = Some s1"
    and run: "app_run es s1 = Some s'"
    by (auto split: option.splits)
  from quiescent_step [OF Cons.prems(1) _ step] Cons.prems(2)
  have "quiescent s1" and "fetches s1 = fetches s" by simp_all
  with Cons.IH [OF _ _ run] Cons.prems(2) show ?case by simp
qed

text \<open>
  A reply with the status \<open>completed\<close> or \<open>failed\<close> to a poll of the registered
  interval clears it, and no further status request follows without the user.
\<close>

lemma terminal_status_stops_polling:
  assumes "awaiting_at k s = Some (AwaitStatus j iid)"
    and "\<forall>t. pollInterval s = Some t \<longrightarrow> timer_id t = iid"
    and "status st = js ''completed'' \<or> status st = js ''failed''"
  shows "\<exists>s'. app_step (StatusReply k (StatusOk st)) s = Some s' \<and>
           pollInterval s' = None \<and> status_fetches s' = status_fetches s \<and>
           (\<forall>es s''. list_all is_passive es \<and> app_run es s' = Some s'' \<longrightarrow>
              pollInterval s'' = None \<and> status_fetches s'' = status_fetches s')"
proof -
  let ?s' = "poll_status j iid (StatusOk st) (resumed k s)"
  have step: "app_step (StatusReply k (StatusOk st)) s = Some ?s'"
    using assms(1) by simp
  have own: "\<forall>t. pollInterval ((resumed k s)\<lparr>jobStatus := Some st\<rparr>) = Some t \<longrightarrow> timer_id t = iid"
    using assms(2) by (simp add: resumed_def)
  have cleared: "pollInterval ?s' = None"
    using assms(3) clearInterval_own [OF own]
    by (auto simp: poll_status_def Let_def)
  have same: "status_fetches ?s' = status_fetches s"
    using assms(3)
    by (auto simp: poll_status_def Let_def status_fetches_def clearInterval_fields resumed_def)
  from step cleared same passive_run_cleared [OF cleared] show ?thesis by blast
qed

text \<open>
  When the poll answered \<open>completed\<close> is the only status request in flight, the images
  are requested once, and no request follows without the user.
\<close>

lemma completed_poll_alone:
  assumes "awaiting_at k s = Some (AwaitStatus j iid)"
    and "\<forall>t. pollInterval s = Some t \<longrightarrow> timer_id t = iid"
    and "\<not> list_ex is_AwaitStatus (remove_nth k (in_flight s))"
    and "status st = js ''completed''"
  shows "\<exists>s'. app_step (StatusReply k (StatusOk st)) s = Some s' \<and>
           fetches s' = fetches s @ [GetImages j] \<and>
           (\<forall>es s''. list_all is_passive es \<and> app_run es s' = Some s'' \<longrightarrow>
              fetches s'' = fetches s @ [GetImages j])"
proof -
  let ?s1 = "(resumed k s)\<lparr>jobStatus := Some st\<rparr>"
  let ?s2 = "clearInterval iid ?s1"
  let ?s' = "?s2\<lparr>fetches := fetches ?s2 @ [GetImages j],
                 in_flight := in_flight ?s2 @ [AwaitImages j iid]\<rparr>"
  have step: "app_step (StatusReply k (StatusOk st)) s = Some ?s'"
    using assms(1,4) by (simp add: poll_status_def Let_def)
  have "\<forall>t. pollInterval ?s1 = Some t \<longrightarrow> timer_id t = iid"
    using assms(2) by (simp add: resumed_def)
  then have "pollInterval ?s2 = None"
    by (rule clearInterval_own)
  then have q: "quiescent ?s'"
    using assms(3) by (simp add: quiescent_def clearInterval_fields resumed_def)
  have f: "fetches ?s' = fetches s @ [GetImages j]"
    by (simp add: clearInterval_fields resumed_def)
  from step f quiescent_run [OF q] show ?thesis by metis
qed



lemma render_after_reset: "render (handleReset clearData s) = [MainForm]"
  by (simp add: render_def handleReset_def setJobId_def truthy_def Let_def)

lemma handleReset_lastCampaignData:
  "lastCampaignData (handleReset clearData s) = (if clearData then None else lastCampaignData s)"
  by (simp add: handleReset_def setJobId_def Let_def)











text \<open>
  The button \<open>Modify Campaign & Retry\<close> keeps \<open>lastCampaignData\<close> and shows the main
  form, which is mounted without \<open>initialData\<close>.
\<close>

lemma modify_and_retry_main_form:
  "render (click ModifyAndRetry s) = [MainForm] \<and>
   lastCampaignData (click ModifyAndRetry s) = lastCampaignData s"
  by (simp add: render_after_reset handleReset_lastCampaignData)

end
